theory Spec2Isabelle
  imports Main
begin

section \<open>Users and the permission policy\<close>

text \<open>
  A user object as \<^verbatim>\<open>authenticateUser\<close> and the mock data build it. The properties
  \<^verbatim>\<open>id\<close> and \<^verbatim>\<open>username\<close> may be absent (the code itself falls back with
  \<^verbatim>\<open>user.id || user.username\<close>); an absent property reads as \<^verbatim>\<open>undefined\<close>, here
  \<open>None\<close>. The role is the free-form string \<^verbatim>\<open>user_type\<close>. The properties that
  no function modelled here reads (organization, registration date and so on) are
  carried in \<open>user_other_fields\<close>.
\<close>

record user =
  user_id :: "string option"
  username :: "string option"
  full_name :: string
  email :: string
  user_type :: string
  user_other_fields :: "(string \<times> string) list"

definition allowedTypes :: "string list" where
  "allowedTypes = [''Researcher'', ''Administrator'', ''Government Official'']"

text \<open>
  \<^verbatim>\<open>function canVerifyReports(user) { if (!user) return false; ... includes(user.user_type) }\<close>;
  \<open>None\<close> is the \<^verbatim>\<open>null\<close> user.
\<close>

fun canVerifyReports :: "user option \<Rightarrow> bool" where
  "canVerifyReports None = False"
| "canVerifyReports (Some u) = (user_type u \<in> set allowedTypes)"

section \<open>The report repository (mock data of InvasiveSpeciesAPI)\<close>

text \<open>
  A sighting report. The four verification properties are the ones \<^verbatim>\<open>verifyReport\<close>
  assigns; a report that was never verified has no \<^verbatim>\<open>verified_by\<close>,
  \<^verbatim>\<open>verification_date\<close> or \<^verbatim>\<open>verification_notes\<close> property. Every other
  property of the object is carried, untouched, in \<open>other_fields\<close>.
\<close>

record report =
  report_id :: string
  species_id :: string
  verification_status :: string
  verified_by :: "string option"
  verification_date :: "string option"
  verification_notes :: "string option"
  other_fields :: "(string \<times> string) list"

record species =
  species_ident :: string
  scientific_name :: string

text \<open>
  The object \<^verbatim>\<open>{...report, species_name: ...}\<close> that \<^verbatim>\<open>getReportById\<close> returns.
\<close>

record report_details =
  details_report :: report
  species_name :: string

text \<open>
  The constructor sets \<^verbatim>\<open>useMockData = true\<close> and nothing assigns it again, so the
  repository is \<^verbatim>\<open>this.mockData\<close>; the branches behind \<^verbatim>\<open>if (this.useMockData)\<close>
  are the ones modelled.
\<close>

record api_state =
  api_currentUser :: "user option"
  mock_reports :: "report list"
  mock_species :: "species list"

datatype error = ReportNotFound | TypeError | ReferenceError

text \<open>
  \<^verbatim>\<open>Object.assign(report, verificationData)\<close> on the element that
  \<^verbatim>\<open>Array.prototype.find\<close> returned: the first element satisfying the predicate is
  changed in place, every other element is left alone.
\<close>

fun assign_first :: "('a \<Rightarrow> bool) \<Rightarrow> ('a \<Rightarrow> 'a) \<Rightarrow> 'a list \<Rightarrow> 'a list" where
  "assign_first P f [] = []"
| "assign_first P f (x # xs) = (if P x then f x # xs else x # assign_first P f xs)"

definition getReportById :: "api_state \<Rightarrow> string \<Rightarrow> error + report_details" where
  "getReportById a ident =
     (case find (\<lambda>r. report_id r = ident) (mock_reports a) of
        Some r \<Rightarrow>
          Inr \<lparr>details_report = r,
               species_name =
                 (case find (\<lambda>s. species_ident s = species_id r) (mock_species a) of
                    Some s \<Rightarrow> scientific_name s
                  | None \<Rightarrow> ''Unknown Species'')\<rparr>
      | None \<Rightarrow> Inl ReportNotFound)"

text \<open>
  \<^verbatim>\<open>verificationData\<close>: the four properties assigned by \<^verbatim>\<open>verifyReport\<close>. The
  parameter \<^verbatim>\<open>notes = ''\<close> has a default, used when the argument is omitted (\<open>None\<close>);
  \<open>nowIso\<close> is the value of \<^verbatim>\<open>new Date().toISOString()\<close> at the call.
\<close>

definition verificationData :: "string \<Rightarrow> string \<Rightarrow> string option \<Rightarrow> string \<Rightarrow> report \<Rightarrow> report" where
  "verificationData verifierName status notes nowIso r =
     r\<lparr>verification_status := status,
       verified_by := Some verifierName,
       verification_date := Some nowIso,
       verification_notes := Some (case notes of None \<Rightarrow> [] | Some n \<Rightarrow> n)\<rparr>"

text \<open>
  The result pairs what the call returns or throws with the repository after the call, so
  that what a failing call leaves behind is part of the model.
\<close>

definition verifyReport ::
  "api_state \<Rightarrow> string \<Rightarrow> string \<Rightarrow> string \<Rightarrow> string option \<Rightarrow> string \<Rightarrow> (error + report) \<times> api_state" where
  "verifyReport a ident verifierName status notes nowIso =
     (case find (\<lambda>r. report_id r = ident) (mock_reports a) of
        Some r \<Rightarrow>
          (Inr (verificationData verifierName status notes nowIso r),
           a\<lparr>mock_reports :=
               assign_first (\<lambda>r. report_id r = ident)
                 (verificationData verifierName status notes nowIso) (mock_reports a)\<rparr>)
      | None \<Rightarrow> (Inl ReportNotFound, a))"

section \<open>The session store (localStorage)\<close>

text \<open>
  One entry of the activity log kept under \<^verbatim>\<open>ipsms_user_activity_log\<close>, with the
  properties \<^verbatim>\<open>trackUserLogin\<close> gives it. \<^verbatim>\<open>null\<close> is \<open>None\<close>.
\<close>

record log_entry =
  entry_id :: string
  userId :: "string option"
  entry_username :: "string option"
  fullName :: string
  entry_email :: string
  userType :: string
  loginTime :: int
  logoutTime :: "int option"
  isActive :: bool
  sessionDuration :: "int option"
  environment :: string
  userAgent :: string

text \<open>
  What a medium that corrupts silently keeps of a value written under one of the three
  session keys: another value of the same shape, or nothing (\<open>None\<close>: the key then
  reads back as \<^verbatim>\<open>null\<close>).
\<close>

record distortion =
  kept_user :: "user \<Rightarrow> user option"
  kept_expiry :: "int \<Rightarrow> int option"
  kept_login_time :: "int \<Rightarrow> int option"

text \<open>
  How the persistence medium answers. \<open>NoStorageAPI\<close>: \<^verbatim>\<open>typeof Storage\<close> is
  \<^verbatim>\<open>"undefined"\<close> and every use of \<^verbatim>\<open>localStorage\<close> throws. \<open>AccessDenied\<close>: the
  type exists and every access throws. \<open>WriteRefused\<close>: \<^verbatim>\<open>getItem\<close> and
  \<^verbatim>\<open>removeItem\<close> work and \<^verbatim>\<open>setItem\<close> throws (no quota). \<open>Working\<close>: nothing
  throws and every key reads back as it was written. \<open>Corrupting d\<close>: nothing throws,
  but a write under \<^verbatim>\<open>ipsms_user\<close>, \<^verbatim>\<open>ipsms_session_expiry\<close> or
  \<^verbatim>\<open>ipsms_login_time\<close> leaves behind what \<open>d\<close> says instead of the value written (the
  silent corruption that the read-back of \<^verbatim>\<open>saveUserSession\<close> is there to catch); the
  other keys are kept as written.
\<close>

datatype medium = NoStorageAPI | AccessDenied | WriteRefused | Working | Corrupting distortion

text \<open>
  The keys this program uses. The program writes each key with values of one shape only
  (\<^verbatim>\<open>JSON.stringify\<close> of a user or of the log array, \<^verbatim>\<open>toString\<close> of a number, a
  plain string) and reads it back with \<^verbatim>\<open>JSON.parse\<close> or \<^verbatim>\<open>parseInt\<close>; the record
  holds the value before serialisation, so a read returns what the last write stored and
  text that no write of the program produces is outside the model. \<open>None\<close> is a key
  that is not set (\<^verbatim>\<open>getItem\<close> returns \<^verbatim>\<open>null\<close>).
\<close>

record storage =
  medium :: medium
  ipsms_test :: "string option"
  ipsms_user :: "user option"
  ipsms_session_expiry :: "int option"
  ipsms_login_time :: "int option"
  ipsms_environment :: "string option"
  ipsms_user_activity_log :: "log_entry list option"

text \<open>
  \<open>readable\<close>: \<^verbatim>\<open>getItem\<close> and \<^verbatim>\<open>removeItem\<close> do not throw. \<open>writable\<close>:
  \<^verbatim>\<open>setItem\<close> does not throw either.
\<close>

definition readable :: "storage \<Rightarrow> bool" where
  "readable st = (medium st \<noteq> NoStorageAPI \<and> medium st \<noteq> AccessDenied)"

definition writable :: "storage \<Rightarrow> bool" where
  "writable st = (readable st \<and> medium st \<noteq> WriteRefused)"

text \<open>What a later read finds after \<^verbatim>\<open>setItem\<close> of a session key has completed.\<close>

definition written_user :: "medium \<Rightarrow> user \<Rightarrow> user option" where
  "written_user m u = (case m of Corrupting d \<Rightarrow> kept_user d u | _ \<Rightarrow> Some u)"

definition written_expiry :: "medium \<Rightarrow> int \<Rightarrow> int option" where
  "written_expiry m e = (case m of Corrupting d \<Rightarrow> kept_expiry d e | _ \<Rightarrow> Some e)"

definition written_login_time :: "medium \<Rightarrow> int \<Rightarrow> int option" where
  "written_login_time m t = (case m of Corrupting d \<Rightarrow> kept_login_time d t | _ \<Rightarrow> Some t)"

text \<open>What the browser supplies: \<^verbatim>\<open>window.location.origin\<close> and \<^verbatim>\<open>navigator.userAgent\<close>.\<close>

record env =
  origin :: string
  navigator_userAgent :: string

text \<open>JavaScript's \<^verbatim>\<open>a || b\<close> on values that are a string or \<^verbatim>\<open>undefined\<close>.\<close>

definition truthy :: "string option \<Rightarrow> bool" where
  "truthy v = (case v of None \<Rightarrow> False | Some s \<Rightarrow> s \<noteq> [])"

definition js_or :: "string option \<Rightarrow> string option \<Rightarrow> string option" where
  "js_or a b = (if truthy a then a else b)"

text \<open>
  \<^verbatim>\<open>entry.userId === user.id || entry.username === user.username\<close>: the test both
  trackers use for "an entry of this user".
\<close>

definition sameUser :: "log_entry \<Rightarrow> user \<Rightarrow> bool" where
  "sameUser e u = (userId e = user_id u \<or> entry_username e = username u)"

text \<open>
  \<^verbatim>\<open>generateId()\<close>: \<^verbatim>\<open>trackUserLogin\<close> calls it for the id of the new entry, and no
  script of the repository (main.js, api.js, map.js, charts.js) defines a function of
  that name. The call therefore throws a ReferenceError.
\<close>

definition generateId :: "error + string" where
  "generateId = Inl ReferenceError"

text \<open>
  The entry \<^verbatim>\<open>trackUserLogin\<close> builds, \<open>newId\<close> being what \<^verbatim>\<open>generateId()\<close> returned.
\<close>

definition loginEntry :: "env \<Rightarrow> string \<Rightarrow> user \<Rightarrow> int \<Rightarrow> log_entry" where
  "loginEntry ev newId u t =
     \<lparr>entry_id = newId,
      userId = js_or (user_id u) (username u),
      entry_username = username u,
      fullName = full_name u,
      entry_email = email u,
      userType = user_type u,
      loginTime = t,
      logoutTime = None,
      isActive = True,
      sessionDuration = None,
      environment = origin ev,
      userAgent = take 200 (navigator_userAgent ev)\<rparr>"

text \<open>The three assignments that end a session entry, in both trackers.\<close>

definition endSession :: "int \<Rightarrow> log_entry \<Rightarrow> log_entry" where
  "endSession t e = e\<lparr>isActive := False, logoutTime := Some t, sessionDuration := Some (t - loginTime e)\<rparr>"

text \<open>\<^verbatim>\<open>xs.slice(-n)\<close>: the last \<open>n\<close> elements, or all of them when there are fewer.\<close>

definition slice_last :: "nat \<Rightarrow> 'a list \<Rightarrow> 'a list" where
  "slice_last n xs = drop (length xs - n) xs"

text \<open>
  The array work of \<^verbatim>\<open>trackUserLogin\<close>: the \<^verbatim>\<open>forEach\<close> that ends the user's earlier
  sessions, the \<^verbatim>\<open>push\<close>, and \<^verbatim>\<open>slice(-100)\<close> when more than 100 entries result.
\<close>

definition loginLog :: "env \<Rightarrow> string \<Rightarrow> user \<Rightarrow> int \<Rightarrow> log_entry list \<Rightarrow> log_entry list" where
  "loginLog ev newId u t userActivityLog =
     (let marked = map (\<lambda>e. if sameUser e u then (if isActive e then endSession t e else e) else e)
                     userActivityLog;
          pushed = marked @ [loginEntry ev newId u t]
      in if length pushed > 100 then slice_last 100 pushed else pushed)"

definition logoutLog :: "user \<Rightarrow> int \<Rightarrow> log_entry list \<Rightarrow> log_entry list" where
  "logoutLog u t userActivityLog =
     map (\<lambda>e. if sameUser e u \<and> isActive e then endSession t e else e) userActivityLog"

text \<open>
  \<^verbatim>\<open>JSON.parse(localStorage.getItem('ipsms_user_activity_log') || '[]')\<close>, for a medium
  that can be read.
\<close>

definition storedLog :: "storage \<Rightarrow> log_entry list" where
  "storedLog st = (case ipsms_user_activity_log st of None \<Rightarrow> [] | Some l \<Rightarrow> l)"

text \<open>
  Both trackers run inside their own \<^verbatim>\<open>try/catch\<close>: when a statement throws, the
  error is logged and the storage is as it was. In \<^verbatim>\<open>trackUserLogin\<close> the statements
  are, in order, the read of the log, the construction of the entry (with the call of
  \<^verbatim>\<open>generateId\<close>), the \<^verbatim>\<open>forEach\<close>, the \<^verbatim>\<open>push\<close>, the \<^verbatim>\<open>slice\<close> and the
  write.
\<close>

definition trackUserLogin :: "env \<Rightarrow> user \<Rightarrow> int \<Rightarrow> storage \<Rightarrow> storage" where
  "trackUserLogin ev u t st =
     (if \<not> readable st then st
      else (case generateId of
              Inl err \<Rightarrow> st
            | Inr newId \<Rightarrow>
                let userActivityLog = loginLog ev newId u t (storedLog st)
                in if writable st then st\<lparr>ipsms_user_activity_log := Some userActivityLog\<rparr>
                   else st))"

definition trackUserLogout :: "user \<Rightarrow> int \<Rightarrow> storage \<Rightarrow> storage" where
  "trackUserLogout u t st =
     (if \<not> readable st then st
      else let userActivityLog = logoutLog u t (storedLog st)
           in if writable st then st\<lparr>ipsms_user_activity_log := Some userActivityLog\<rparr> else st)"

section \<open>The application state\<close>

text \<open>
  What the page shows and which collaborators it calls, in order: the notification sink,
  the login dialog, the spinner, the repository calls of the workflow, and the callbacks
  \<^verbatim>\<open>checkExistingLogin\<close> schedules with \<^verbatim>\<open>setTimeout\<close>.
\<close>

datatype ui_event =
    ShowError string
  | ShowSuccess string
  | ShowLogin
  | ShowLoading
  | HideLoading
  | Alert string
  | CallGetReportById string
  | CallVerifyReport string string string string
  | LoadRecentReports
  | ScheduleRestoreSession user
  | ScheduleShowLoginScreen

text \<open>
  An element \<^verbatim>\<open>#verification-modal\<close>, as far as the code reads it back: the values of
  its three form controls (\<^verbatim>\<open>#verification-status\<close>, \<^verbatim>\<open>#verifier-name\<close>,
  \<^verbatim>\<open>#verification-notes\<close>), which the verifier edits between opening and submitting.
\<close>

record verification_modal =
  status_value :: string
  verifier_name_value :: string
  notes_value :: string

text \<open>
  The globals: \<^verbatim>\<open>currentUser\<close>, \<^verbatim>\<open>invasiveSpeciesAPI\<close>, \<^verbatim>\<open>localStorage\<close>, the
  verification modals in the document (in document order; \<^verbatim>\<open>getElementById\<close> finds the
  first) and the trace of user-interface events, oldest first.
\<close>

record app =
  currentUser :: "user option"
  api :: api_state
  localStorage :: storage
  modals :: "verification_modal list"
  events :: "ui_event list"

definition emit :: "ui_event list \<Rightarrow> app \<Rightarrow> app" where
  "emit es a = a\<lparr>events := events a @ es\<rparr>"

subsection \<open>Session functions\<close>

text \<open>
  \<^verbatim>\<open>clearUserSession\<close>: the logout is tracked when \<^verbatim>\<open>currentUser\<close> is set, then the
  three \<^verbatim>\<open>removeItem\<close> calls; a throwing \<^verbatim>\<open>removeItem\<close> is caught and logged.
  \<open>now\<close> is \<^verbatim>\<open>new Date().getTime()\<close>.
\<close>

definition clearUserSession :: "int \<Rightarrow> app \<Rightarrow> app" where
  "clearUserSession now a =
     (let st1 = (case currentUser a of
                   Some u \<Rightarrow> trackUserLogout u now (localStorage a)
                 | None \<Rightarrow> localStorage a)
      in a\<lparr>localStorage :=
             (if readable st1
              then st1\<lparr>ipsms_user := None, ipsms_session_expiry := None, ipsms_login_time := None\<rparr>
              else st1)\<rparr>)"

text \<open>
  The verification at the end of \<^verbatim>\<open>saveUserSession\<close>: both keys read back to
  something, the parsed user has the name of the user that was saved, and the parsed
  expiry is the expiry that was computed.
\<close>

definition readBackMatches :: "user \<Rightarrow> int \<Rightarrow> storage \<Rightarrow> bool" where
  "readBackMatches u expiryTime st =
     (case (ipsms_user st, ipsms_session_expiry st) of
        (Some parsedUser, Some parsedExpiry) \<Rightarrow>
          full_name parsedUser = full_name u \<and> parsedExpiry = expiryTime
      | _ \<Rightarrow> False)"

text \<open>
  \<^verbatim>\<open>saveUserSession\<close>, in the order of the source: the check of \<^verbatim>\<open>typeof Storage\<close>,
  the test write of \<^verbatim>\<open>ipsms_test\<close>, the four writes, the tracking of the login, and
  the read-back of user and expiry.
\<close>

definition saveUserSession :: "env \<Rightarrow> int \<Rightarrow> user \<Rightarrow> app \<Rightarrow> bool \<times> app" where
  "saveUserSession ev now u a =
     (let expiryTime = now + 24 * 60 * 60 * 1000;
          st = localStorage a
      in if medium st = NoStorageAPI
         then (False, emit [Alert ''Your browser does not support localStorage. Session persistence will not work.''] a)
         else if \<not> writable st then (False, a)
         else
           let st1 = st\<lparr>ipsms_test := None\<rparr>;
               st2 = st1\<lparr>ipsms_user := written_user (medium st) u,
                         ipsms_session_expiry := written_expiry (medium st) expiryTime,
                         ipsms_login_time := written_login_time (medium st) now,
                         ipsms_environment := Some (origin ev)\<rparr>;
               st3 = trackUserLogin ev u now st2
           in (readBackMatches u expiryTime st3, a\<lparr>localStorage := st3\<rparr>))"

text \<open>
  \<^verbatim>\<open>checkExistingLogin\<close>. \<open>now\<close> is the clock read of the function itself and
  \<open>clearNow\<close> the one \<^verbatim>\<open>clearUserSession\<close> makes when it is called. A throwing read
  lands in the \<^verbatim>\<open>catch\<close>, which clears the session as well.
\<close>

definition checkExistingLogin :: "int \<Rightarrow> int \<Rightarrow> app \<Rightarrow> bool \<times> app" where
  "checkExistingLogin now clearNow a =
     (let st = localStorage a
      in if \<not> readable st
         then (False, emit [ScheduleShowLoginScreen] (clearUserSession clearNow a))
         else (case (ipsms_user st, ipsms_session_expiry st) of
                 (Some u, Some expiryTime) \<Rightarrow>
                   if now < expiryTime
                   then (True, emit [ScheduleRestoreSession u]
                                 (a\<lparr>currentUser := Some u,
                                    api := (api a)\<lparr>api_currentUser := Some u\<rparr>\<rparr>))
                   else (False, emit [ScheduleShowLoginScreen] (clearUserSession clearNow a))
               | _ \<Rightarrow> (False, emit [ScheduleShowLoginScreen] a)))"




section \<open>The verification workflow\<close>

text \<open>ASCII \<^verbatim>\<open>toLowerCase\<close>, enough for the status words of the form.\<close>

definition toLowerChar :: "char \<Rightarrow> char" where
  "toLowerChar c = (let n = (of_char c :: nat) in if 65 \<le> n \<and> n \<le> 90 then char_of (n + 32) else c)"

definition toLowerCase :: "string \<Rightarrow> string" where
  "toLowerCase s = map toLowerChar s"

text \<open>
  The modal's markup is a template string assigned to \<^verbatim>\<open>innerHTML\<close>, into which the
  report id, the current user's name and role and the properties of the report are
  written without escaping; the verifier control is \<^verbatim>\<open>value="${currentUser.full_name}"\<close>.
  A string with no double quote, ampersand, less-than sign, line feed, carriage return or
  NUL comes back from the HTML parser as it was written, as text and as attribute value.
\<close>

definition markup_free :: "string \<Rightarrow> bool" where
  "markup_free s = (set s \<inter> {CHR 0x22, CHR 0x26, CHR 0x3C, CHR 0x0A, CHR 0x0D, CHR 0x00} = {})"

definition template_strings :: "string \<Rightarrow> user \<Rightarrow> report_details \<Rightarrow> string list" where
  "template_strings reportId u reportData =
     [reportId, full_name u, user_type u, species_name reportData]
     @ map snd (other_fields (details_report reportData))"

text \<open>
  \<^verbatim>\<open>showVerificationModal(reportId)\<close>. The two guards return before the repository is
  asked. \<^verbatim>\<open>getReportById\<close> settles without suspending, so the \<^verbatim>\<open>then\<close> and
  \<^verbatim>\<open>catch\<close> callbacks are modelled in sequence with the call. When every string
  written into the template is \<open>markup_free\<close>, the new modal has an empty status, the
  current user's name in the verifier control and empty notes. Otherwise the document
  is what the browser's HTML parser makes of the markup, which this model does not
  compute: \<open>parsed\<close> stands for the controls that \<^verbatim>\<open>getElementById\<close> finds in it.
\<close>

definition showVerificationModal :: "string \<Rightarrow> verification_modal \<Rightarrow> app \<Rightarrow> app" where
  "showVerificationModal reportId parsed a =
     (case currentUser a of
        None \<Rightarrow> emit [ShowError ''Please log in to verify reports.'', ShowLogin] a
      | Some u \<Rightarrow>
          if \<not> canVerifyReports (Some u)
          then emit [ShowError ''You do not have permission to verify reports. Only Researchers, Administrators, and Government Officials can verify reports.''] a
          else (case getReportById (api a) reportId of
                  Inr reportData \<Rightarrow>
                    (emit [CallGetReportById reportId] a)
                      \<lparr>modals := modals a @
                         [if list_all markup_free (template_strings reportId u reportData)
                          then \<lparr>status_value = [], verifier_name_value = full_name u,
                                notes_value = []\<rparr>
                          else parsed]\<rparr>
                | Inl err \<Rightarrow>
                    emit [CallGetReportById reportId,
                          ShowError ''Failed to load report details for verification.''] a))"

text \<open>\<^verbatim>\<open>closeVerificationModal\<close> removes the element \<^verbatim>\<open>getElementById\<close> finds, if any.\<close>

definition closeVerificationModal :: "app \<Rightarrow> app" where
  "closeVerificationModal a = a\<lparr>modals := (case modals a of [] \<Rightarrow> [] | m # ms \<Rightarrow> ms)\<rparr>"

text \<open>
  \<^verbatim>\<open>submitVerification(event, reportId)\<close>. With no modal in the document the first
  \<^verbatim>\<open>getElementById(...).value\<close> throws a TypeError outside the \<^verbatim>\<open>try\<close>. The result
  pairs the uncaught error, if any, with the state after the call.
  \<^verbatim>\<open>loadRecentReports\<close> catches its own errors and is an event of the trace.
\<close>

definition submitVerification :: "string \<Rightarrow> string \<Rightarrow> app \<Rightarrow> error option \<times> app" where
  "submitVerification reportId nowIso a =
     (case modals a of
        [] \<Rightarrow> (Some TypeError, a)
      | m # ms \<Rightarrow>
          let status = status_value m;
              verifierName = verifier_name_value m;
              notes = notes_value m
          in if status = [] \<or> verifierName = []
             then (None, emit [ShowError ''Please fill in all required fields.''] a)
             else
               let a1 = emit [ShowLoading, CallVerifyReport reportId verifierName status notes] a;
                   (res, api') = verifyReport (api a1) reportId verifierName status (Some notes) nowIso;
                   a2 = a1\<lparr>api := api'\<rparr>
               in (case res of
                     Inr updated \<Rightarrow>
                       (None,
                        emit [LoadRecentReports, HideLoading]
                          (closeVerificationModal
                             (emit [ShowSuccess (''Report '' @ take 8 reportId @ '' has been ''
                                                 @ toLowerCase status @ ''!'')] a2)))
                   | Inl err \<Rightarrow>
                       (None,
                        emit [ShowError ''Failed to submit verification. Please try again.'',
                              HideLoading] a2)))"

section \<open>The initial data of the page\<close>

text \<open>
  \<^verbatim>\<open>initializeMockData\<close>: the three species and three reports the repository starts
  with, and the one registered user. Properties that no function modelled here reads
  are kept as text in \<open>other_fields\<close>.
\<close>

definition mockSpecies :: "species list" where
  "mockSpecies =
     [\<lparr>species_ident = ''1'', scientific_name = ''Lantana camara''\<rparr>,
      \<lparr>species_ident = ''2'', scientific_name = ''Pueraria montana''\<rparr>,
      \<lparr>species_ident = ''3'', scientific_name = ''Tamarix ramosissima''\<rparr>]"

definition mockReports :: "report list" where
  "mockReports =
     [\<lparr>report_id = ''1'', species_id = ''1'', verification_status = ''Verified'',
       verified_by = Some ''Dr. Alex Johnson'',
       verification_date = Some ''2024-01-16T08:30:00Z'',
       verification_notes = Some ''Confirmed identification through field analysis and NASA satellite imagery.'',
       other_fields =
         [(''latitude'', ''34.0522''), (''longitude'', ''-118.2437''),
          (''location_description'', ''Near hiking trail entrance''),
          (''population_size'', ''Medium (100-1000)''),
          (''threat_assessment'', ''High Risk''), (''confidence_level'', ''High''),
          (''reporter_name'', ''Jane Smith''), (''reporter_email'', ''jane@example.com''),
          (''reporter_type'', ''Researcher''), (''report_date'', ''2024-01-15T10:30:00Z''),
          (''habitat_description'', ''Disturbed forest edge with sandy soil''),
          (''notes'', ''Large population spreading rapidly''),
          (''follow_up_required'', ''true''), (''nasa_enhanced'', ''true''),
          (''satellite_confirmed'', ''true'')]\<rparr>,
      \<lparr>report_id = ''2'', species_id = ''2'', verification_status = ''Pending'',
       verified_by = None, verification_date = None, verification_notes = None,
       other_fields =
         [(''latitude'', ''33.7490''), (''longitude'', ''-84.3880''),
          (''location_description'', ''Roadside vegetation''),
          (''population_size'', ''Large (1000+)''),
          (''threat_assessment'', ''Immediate Action Required''), (''confidence_level'', ''High''),
          (''reporter_name'', ''Bob Johnson''), (''reporter_email'', ''bob@example.com''),
          (''reporter_type'', ''Land Manager''), (''report_date'', ''2024-01-20T14:15:00Z''),
          (''habitat_description'', ''Forest edge near creek''),
          (''notes'', ''Covering native trees, immediate action needed''),
          (''follow_up_required'', ''true''), (''nasa_enhanced'', ''true'')]\<rparr>,
      \<lparr>report_id = ''3'', species_id = ''3'', verification_status = ''Needs Review'',
       verified_by = Some ''Dr. Maria Garcia'',
       verification_date = Some ''2024-01-18T12:00:00Z'',
       verification_notes = Some ''Species identification uncertain. Recommend expert field verification.'',
       other_fields =
         [(''latitude'', ''40.7128''), (''longitude'', ''-74.0060''),
          (''location_description'', ''Central Park area''),
          (''population_size'', ''Small (10-100)''),
          (''threat_assessment'', ''Moderate Risk''), (''confidence_level'', ''Medium''),
          (''reporter_name'', ''Sarah Wilson''), (''reporter_email'', ''sarah@example.com''),
          (''reporter_type'', ''Citizen Scientist''), (''report_date'', ''2024-01-17T09:45:00Z''),
          (''habitat_description'', ''Urban park setting near water feature''),
          (''notes'', ''First sighting in this area, monitoring recommended''),
          (''follow_up_required'', ''false''), (''nasa_enhanced'', ''false'')]\<rparr>]"

definition mockUser :: user where
  "mockUser =
     \<lparr>user_id = Some ''1'', username = Some ''testuser'', full_name = ''Test User'',
      email = ''test@example.com'', user_type = ''Researcher'',
      user_other_fields =
        [(''registration_date'', ''2024-01-01T00:00:00Z''), (''last_login'', ''2024-01-20T12:00:00Z''),
         (''reports_submitted'', ''5''), (''reports_verified'', ''3''), (''active_status'', ''true'')]\<rparr>"

text \<open>A user of the one role of the login form that may not verify.\<close>

definition citizenUser :: user where
  "citizenUser =
     \<lparr>user_id = Some ''2'', username = Some ''visitor'', full_name = ''Vera Visitor'',
      email = ''visitor@example.com'', user_type = ''Citizen'', user_other_fields = []\<rparr>"

definition localEnv :: env where
  "localEnv = \<lparr>origin = ''http://localhost:8000'', navigator_userAgent = ''Mozilla/5.0''\<rparr>"

definition emptyStorage :: storage where
  "emptyStorage =
     \<lparr>medium = Working, ipsms_test = None, ipsms_user = None, ipsms_session_expiry = None,
      ipsms_login_time = None, ipsms_environment = None, ipsms_user_activity_log = None\<rparr>"

text \<open>The page after loading, before anybody has logged in.\<close>

definition initialApp :: app where
  "initialApp =
     \<lparr>currentUser = None,
      api = \<lparr>api_currentUser = None, mock_reports = mockReports, mock_species = mockSpecies\<rparr>,
      localStorage = emptyStorage,
      modals = [],
      events = []\<rparr>"

text \<open>
  The scenario of the workflow: the page with a citizen logged in, the page with the
  registered researcher logged in, and the latter after the researcher has opened the
  review of report 2 (nothing chosen in the form yet). No string of the mock data
  carries markup, so the value given for \<open>parsed\<close> plays no part there.
\<close>

definition citizenApp :: app where
  "citizenApp = initialApp\<lparr>currentUser := Some citizenUser\<rparr>"

definition researcherApp :: app where
  "researcherApp = initialApp\<lparr>currentUser := Some mockUser\<rparr>"

definition otherControls :: verification_modal where
  "otherControls = \<lparr>status_value = ''?'', verifier_name_value = ''?'', notes_value = ''?''\<rparr>"

definition reviewOpenApp :: app where
  "reviewOpenApp = showVerificationModal ''2'' otherControls researcherApp"

text \<open>The researcher's page after \<^verbatim>\<open>saveUserSession\<close> at time 1000.\<close>

definition loggedInApp :: app where
  "loggedInApp = snd (saveUserSession localEnv 1000 mockUser researcherApp)"

text \<open>
  Two media that corrupt silently: one keeps everything of a written user but the e-mail
  address, the other keeps nothing of a written user; both keep expiry and login time.
  And the researcher's page on each of them.
\<close>

definition emailLosing :: distortion where
  "emailLosing =
     \<lparr>kept_user = (\<lambda>u. Some (u\<lparr>email := []\<rparr>)), kept_expiry = Some, kept_login_time = Some\<rparr>"

definition userLosing :: distortion where
  "userLosing = \<lparr>kept_user = (\<lambda>u. None), kept_expiry = Some, kept_login_time = Some\<rparr>"

definition emailLosingApp :: app where
  "emailLosingApp = researcherApp\<lparr>localStorage := emptyStorage\<lparr>medium := Corrupting emailLosing\<rparr>\<rparr>"

definition userLosingApp :: app where
  "userLosingApp = researcherApp\<lparr>localStorage := emptyStorage\<lparr>medium := Corrupting userLosing\<rparr>\<rparr>"

section \<open>Permission policy: verified properties\<close>

text \<open>
  Claim C2. \<^verbatim>\<open>canVerifyReports(user)\<close> is true exactly when the user is not
  \<^verbatim>\<open>null\<close> and the role is Researcher, Administrator or Government Official (the
  string \<^verbatim>\<open>'Government Official'\<close> is how the page writes the role the specification
  calls GovernmentOfficial); so it is false for every user of any other role.
\<close>

theorem canVerifyReports_iff:
  "canVerifyReports uo \<longleftrightarrow>
     (\<exists>u. uo = Some u \<and> user_type u \<in> {''Researcher'', ''Administrator'', ''Government Official''})"
  by (cases uo) (auto simp: allowedTypes_def)

theorem canVerifyReports_iff_witness:
  "canVerifyReports (Some mockUser) \<and> \<not> canVerifyReports (Some citizenUser) \<and> \<not> canVerifyReports None"
  using canVerifyReports_iff [of "Some mockUser"] canVerifyReports_iff [of "Some citizenUser"]
    canVerifyReports_iff [of None]
  by (simp add: mockUser_def citizenUser_def)

section \<open>Report repository: verified properties\<close>

lemma find_distinct_key:
  "r \<in> set xs \<Longrightarrow> distinct (map f xs) \<Longrightarrow> find (\<lambda>x. f x = f r) xs = Some r"
  by (induction xs) (auto simp: image_iff)

lemma assign_first_distinct_key:
  "r \<in> set xs \<Longrightarrow> distinct (map f xs) \<Longrightarrow>
   assign_first (\<lambda>x. f x = f r) g xs = map (\<lambda>x. if x = r then g r else x) xs"
proof (induction xs)
  case Nil
  then show ?case by simp
next
  case (Cons x xs)
  show ?case
  proof (cases "x = r")
    case True
    with Cons.prems have "r \<notin> set xs" by (auto simp: image_iff)
    then have "map (\<lambda>x. if x = r then g r else x) xs = xs"
      by (induction xs) auto
    with True show ?thesis by simp
  next
    case False
    with Cons.prems have "f x \<noteq> f r" by (auto simp: image_iff)
    with Cons False show ?thesis by auto
  qed
qed

lemma find_assign_first:
  "find P xs = Some r \<Longrightarrow> (\<And>x. P (g x) = P x) \<Longrightarrow> find P (assign_first P g xs) = Some (g r)"
  by (induction xs) (auto split: if_splits)

lemma find_absent: "(\<forall>x\<in>set xs. \<not> P x) \<Longrightarrow> find P xs = None"
  by (induction xs) auto

lemma report_id_verificationData: "report_id (verificationData v s n t r) = report_id r"
  by (simp add: verificationData_def)

lemma distinct_mockReports: "distinct (map report_id mockReports)"
  by (simp add: mockReports_def)

text \<open>
  Claim C1. In a repository whose report ids are unique (the data model's invariant, which
  the mock data and the id assignment of new reports keep), for every report \<open>r\<close> of the
  repository \<^verbatim>\<open>verifyReport(r.id, verifier, status, notes)\<close> succeeds and returns \<open>r\<close>
  with \<^verbatim>\<open>verification_status = status\<close>, \<^verbatim>\<open>verified_by = verifier\<close>,
  \<^verbatim>\<open>verification_date\<close> the time of the call and \<^verbatim>\<open>verification_notes = notes\<close>; in the
  repository only \<open>r\<close> has changed, to that record; and \<^verbatim>\<open>getReportById(r.id)\<close> right
  after yields that record (with the species name added).
\<close>

theorem verifyReport_then_getReportById:
  assumes "r \<in> set (mock_reports a)" and "distinct (map report_id (mock_reports a))"
  shows "let r' = r\<lparr>verification_status := status, verified_by := Some verifier,
                     verification_date := Some nowIso, verification_notes := Some remark\<rparr>;
             a' = snd (verifyReport a (report_id r) verifier status (Some remark) nowIso)
         in fst (verifyReport a (report_id r) verifier status (Some remark) nowIso) = Inr r'
            \<and> mock_reports a' = map (\<lambda>x. if x = r then r' else x) (mock_reports a)
            \<and> (\<exists>n. getReportById a' (report_id r) = Inr \<lparr>details_report = r', species_name = n\<rparr>)"
proof -
  let ?g = "verificationData verifier status (Some remark) nowIso"
  let ?P = "\<lambda>x. report_id x = report_id r"
  have f: "find ?P (mock_reports a) = Some r"
    using assms by (rule find_distinct_key)
  have g: "?g r = r\<lparr>verification_status := status, verified_by := Some verifier,
                     verification_date := Some nowIso, verification_notes := Some remark\<rparr>"
    by (simp add: verificationData_def)
  have u: "assign_first ?P ?g (mock_reports a) = map (\<lambda>x. if x = r then ?g r else x) (mock_reports a)"
    using assms by (rule assign_first_distinct_key)
  have f': "find ?P (assign_first ?P ?g (mock_reports a)) = Some (?g r)"
    using f by (rule find_assign_first) (simp add: report_id_verificationData)
  show ?thesis
    using f f' u unfolding Let_def
    by (simp add: verifyReport_def getReportById_def g)
qed

theorem verifyReport_then_getReportById_witness:
  "hd (tl mockReports) \<in> set (mock_reports (api initialApp))
   \<and> distinct (map report_id (mock_reports (api initialApp)))
   \<and> fst (verifyReport (api initialApp) ''2'' ''A. Lee'' ''Rejected'' (Some ''not this species'')
            ''2026-11-02T09:00:00.000Z'')
       = Inr ((hd (tl mockReports))\<lparr>verification_status := ''Rejected'', verified_by := Some ''A. Lee'',
                verification_date := Some ''2026-11-02T09:00:00.000Z'',
                verification_notes := Some ''not this species''\<rparr>)"
proof -
  have h1: "hd (tl mockReports) \<in> set (mock_reports (api initialApp))"
    by (simp add: initialApp_def mockReports_def)
  have h2: "distinct (map report_id (mock_reports (api initialApp)))"
    by (simp add: initialApp_def distinct_mockReports)
  have i: "report_id (hd (tl mockReports)) = ''2''"
    by (simp add: mockReports_def)
  from verifyReport_then_getReportById [OF h1 h2, where status = "''Rejected''"
      and verifier = "''A. Lee''" and nowIso = "''2026-11-02T09:00:00.000Z''"
      and remark = "''not this species''"]
  show ?thesis using h1 h2 by (simp add: Let_def i)
qed

text \<open>
  Claim C4. For every id that no report of the repository has,
  \<^verbatim>\<open>verifyReport(id, ...)\<close> throws "Report not found" and the repository after the call
  is the repository before it: the same reports, each as it was.
\<close>

theorem verifyReport_absent:
  assumes "ident \<notin> report_id ` set (mock_reports a)"
  shows "verifyReport a ident verifier status notes nowIso = (Inl ReportNotFound, a)"
proof -
  have "find (\<lambda>r. report_id r = ident) (mock_reports a) = None"
    using assms by (intro find_absent) auto
  then show ?thesis by (simp add: verifyReport_def)
qed

theorem verifyReport_absent_witness:
  "''does-not-exist'' \<notin> report_id ` set (mock_reports (api initialApp))
   \<and> verifyReport (api initialApp) ''does-not-exist'' ''A. Lee'' ''Rejected'' (Some ''x'') ''2026-11-02T09:00:00.000Z''
       = (Inl ReportNotFound, api initialApp)"
proof -
  have h: "''does-not-exist'' \<notin> report_id ` set (mock_reports (api initialApp))"
    by (simp add: initialApp_def mockReports_def)
  from verifyReport_absent [OF h] h show ?thesis by simp
qed

section \<open>Verification workflow: verified properties\<close>

text \<open>
  Claim C3. When nobody is logged in, or the current user may not verify,
  \<^verbatim>\<open>showVerificationModal(reportId)\<close> changes nothing but the notifications: one error
  message is shown (and the login dialog, when nobody is logged in); no modal is added,
  the repository is neither asked nor changed, for every report id.
\<close>

theorem showVerificationModal_denied:
  assumes "currentUser a = None \<or> \<not> canVerifyReports (currentUser a)"
  shows "\<exists>msg. showVerificationModal reportId parsed a =
           a\<lparr>events := events a @ ShowError msg # (if currentUser a = None then [ShowLogin] else [])\<rparr>"
  using assms
  by (cases "currentUser a") (auto simp: showVerificationModal_def emit_def)

theorem showVerificationModal_denied_witness:
  "(currentUser citizenApp = None \<or> \<not> canVerifyReports (currentUser citizenApp))
   \<and> modals (showVerificationModal ''2'' otherControls citizenApp) = []
   \<and> api (showVerificationModal ''2'' otherControls citizenApp) = api citizenApp
   \<and> CallGetReportById ''2'' \<notin> set (events (showVerificationModal ''2'' otherControls citizenApp))"
proof -
  have h: "currentUser citizenApp = None \<or> \<not> canVerifyReports (currentUser citizenApp)"
    by (simp add: citizenApp_def initialApp_def citizenUser_def allowedTypes_def)
  have e: "events citizenApp = []" "modals citizenApp = []"
    by (simp_all add: citizenApp_def initialApp_def)
  from showVerificationModal_denied [OF h, of "''2''" otherControls] obtain msg where
    "showVerificationModal ''2'' otherControls citizenApp =
       citizenApp\<lparr>events := events citizenApp @ ShowError msg # (if currentUser citizenApp = None then [ShowLogin] else [])\<rparr>"
    by blast
  then show ?thesis using h e by simp
qed

text \<open>
  Claim C5. With a verification modal open, \<^verbatim>\<open>submitVerification\<close> with an empty
  status or an empty verifier name only shows the message "Please fill in all required
  fields.": the modal stays open with its form as it was, \<^verbatim>\<open>verifyReport\<close> is not
  called, and the repository (so every verification field of every report) is unchanged.
\<close>

theorem submitVerification_invalid:
  assumes "modals a = m # ms" and "status_value m = [] \<or> verifier_name_value m = []"
  shows "submitVerification reportId nowIso a =
           (None, a\<lparr>events := events a @ [ShowError ''Please fill in all required fields.'']\<rparr>)"
  using assms by (auto simp: submitVerification_def emit_def)

theorem submitVerification_invalid_witness:
  "modals reviewOpenApp = hd (modals reviewOpenApp) # []
   \<and> verifier_name_value (hd (modals reviewOpenApp)) = ''Test User''
   \<and> (status_value (hd (modals reviewOpenApp)) = [] \<or> verifier_name_value (hd (modals reviewOpenApp)) = [])
   \<and> submitVerification ''2'' ''2026-11-02T09:00:00.000Z'' reviewOpenApp =
       (None, reviewOpenApp\<lparr>events := events reviewOpenApp @ [ShowError ''Please fill in all required fields.'']\<rparr>)"
proof -
  have h1: "modals reviewOpenApp = hd (modals reviewOpenApp) # []"
    by (simp add: reviewOpenApp_def researcherApp_def initialApp_def showVerificationModal_def
          mockUser_def allowedTypes_def getReportById_def mockReports_def mockSpecies_def emit_def
          markup_free_def template_strings_def)
  have h2: "status_value (hd (modals reviewOpenApp)) = [] \<or> verifier_name_value (hd (modals reviewOpenApp)) = []"
    by (simp add: reviewOpenApp_def researcherApp_def initialApp_def showVerificationModal_def
          mockUser_def allowedTypes_def getReportById_def mockReports_def mockSpecies_def emit_def
          markup_free_def template_strings_def)
  have h3: "verifier_name_value (hd (modals reviewOpenApp)) = ''Test User''"
    by (simp add: reviewOpenApp_def researcherApp_def initialApp_def showVerificationModal_def
          mockUser_def allowedTypes_def getReportById_def mockReports_def mockSpecies_def emit_def
          markup_free_def template_strings_def)
  from submitVerification_invalid [OF h1 h2] h1 h2 h3 show ?thesis by blast
qed

section \<open>Session store: verified properties\<close>

lemma trackUserLogin_unchanged: "trackUserLogin ev u t st = st"
  by (simp add: trackUserLogin_def generateId_def)

lemma medium_trackUserLogout: "medium (trackUserLogout u t st) = medium st"
  by (simp add: trackUserLogout_def Let_def)

lemma session_keys_trackUserLogout:
  "ipsms_user (trackUserLogout u t st) = ipsms_user st"
  "ipsms_session_expiry (trackUserLogout u t st) = ipsms_session_expiry st"
  "ipsms_login_time (trackUserLogout u t st) = ipsms_login_time st"
  "ipsms_environment (trackUserLogout u t st) = ipsms_environment st"
  by (simp_all add: trackUserLogout_def Let_def)

lemmas session_store_defs =
  saveUserSession_def checkExistingLogin_def clearUserSession_def readBackMatches_def
  readable_def writable_def written_user_def written_expiry_def written_login_time_def
  emit_def Let_def

lemma medium_researcherApp: "medium (localStorage researcherApp) = Working"
  by (simp add: researcherApp_def initialApp_def emptyStorage_def)

lemma localStorage_loggedInApp:
  "medium (localStorage loggedInApp) = Working"
  "ipsms_user (localStorage loggedInApp) = Some mockUser"
  "ipsms_session_expiry (localStorage loggedInApp) = Some 86401000"
  "ipsms_login_time (localStorage loggedInApp) = Some 1000"
  "ipsms_environment (localStorage loggedInApp) = Some ''http://localhost:8000''"
  "ipsms_user_activity_log (localStorage loggedInApp) = None"
  "currentUser loggedInApp = Some mockUser"
  by (simp_all add: loggedInApp_def researcherApp_def initialApp_def emptyStorage_def localEnv_def
        session_store_defs trackUserLogin_unchanged)

text \<open>
  Claim C7, as stated, fails: it says that a save returns false whenever the read-back
  does not match what was written, and that after a successful save the read-back matches
  what was written. On a medium that silently drops the e-mail address of the written
  user the save returns true, and the user that reads back is not the user that was
  saved: the verification compares the name and the expiry only.
\<close>

theorem save_unverified_fields_counterexample:
  "fst (saveUserSession localEnv 1000 mockUser emailLosingApp)
   \<and> ipsms_user (localStorage (snd (saveUserSession localEnv 1000 mockUser emailLosingApp)))
       = Some (mockUser\<lparr>email := []\<rparr>)
   \<and> mockUser\<lparr>email := []\<rparr> \<noteq> mockUser"
  by (simp add: emailLosingApp_def emailLosing_def researcherApp_def initialApp_def
        emptyStorage_def localEnv_def mockUser_def session_store_defs trackUserLogin_unchanged)

text \<open>
  Claim C7, amended. \<^verbatim>\<open>saveUserSession(user)\<close> returns false exactly when the medium is
  unavailable (no Storage type, or an access or a write that throws) or the verification
  of the write fails, which it does when no user reads back, or the user that reads back
  has another \<^verbatim>\<open>full_name\<close> than the saved user, or the expiry that reads back is not
  \<open>now + 24 h\<close>; the other properties of the user and the login time are not compared.
  On a working medium, one that keeps what is written, it returns true after persisting
  the user, the expiry \<open>now + 24 h\<close> and the login time \<open>now\<close>, which read back as written.
\<close>

theorem saveUserSession_result:
  "(fst (saveUserSession ev now u a) = False \<longleftrightarrow>
      medium (localStorage a) = NoStorageAPI
      \<or> medium (localStorage a) = AccessDenied
      \<or> medium (localStorage a) = WriteRefused
      \<or> (\<nexists>pu. ipsms_user (localStorage (snd (saveUserSession ev now u a))) = Some pu
                \<and> full_name pu = full_name u)
      \<or> ipsms_session_expiry (localStorage (snd (saveUserSession ev now u a))) \<noteq> Some (now + 86400000))
   \<and> (medium (localStorage a) = Working \<longrightarrow>
        fst (saveUserSession ev now u a)
      \<and> ipsms_user (localStorage (snd (saveUserSession ev now u a))) = Some u
      \<and> ipsms_session_expiry (localStorage (snd (saveUserSession ev now u a))) = Some (now + 86400000)
      \<and> ipsms_login_time (localStorage (snd (saveUserSession ev now u a))) = Some now)"
proof (cases "medium (localStorage a)")
  case (Corrupting d)
  then show ?thesis
    by (auto simp: session_store_defs trackUserLogin_unchanged split: option.splits)
qed (simp_all add: session_store_defs trackUserLogin_unchanged)

theorem saveUserSession_result_witness:
  "fst (saveUserSession localEnv 1000 mockUser researcherApp)
   \<and> ipsms_user (localStorage (snd (saveUserSession localEnv 1000 mockUser researcherApp)))
       = Some mockUser
   \<and> \<not> fst (saveUserSession localEnv 1000 mockUser userLosingApp)
   \<and> \<not> fst (saveUserSession localEnv 1000 mockUser
              (researcherApp\<lparr>localStorage := emptyStorage\<lparr>medium := WriteRefused\<rparr>\<rparr>))"
proof -
  have l: "ipsms_user (localStorage (snd (saveUserSession localEnv 1000 mockUser userLosingApp))) = None"
    by (simp add: userLosingApp_def userLosing_def researcherApp_def initialApp_def
          emptyStorage_def session_store_defs trackUserLogin_unchanged)
  from saveUserSession_result [of localEnv 1000 mockUser researcherApp]
    saveUserSession_result [of localEnv 1000 mockUser userLosingApp]
    saveUserSession_result [of localEnv 1000 mockUser
      "researcherApp\<lparr>localStorage := emptyStorage\<lparr>medium := WriteRefused\<rparr>\<rparr>"]
  show ?thesis using medium_researcherApp l by simp
qed

text \<open>
  Claim C6. With a working medium, \<^verbatim>\<open>saveUserSession(u)\<close> at time \<open>t0\<close> succeeds and
  stores the login time \<open>t0\<close> and the expiry \<open>t0 + 24 h\<close>. A \<^verbatim>\<open>checkExistingLogin\<close>
  at any time before that expiry returns true with \<^verbatim>\<open>currentUser\<close> equal to \<open>u\<close> and
  leaves the stored session (so its expiry and login time) as it is. A
  \<^verbatim>\<open>checkExistingLogin\<close> at or after the expiry returns false and removes the stored
  user, expiry and login time.
\<close>

theorem session_round_trip:
  assumes "medium (localStorage a) = Working"
  shows "let a1 = snd (saveUserSession ev t0 u a)
         in fst (saveUserSession ev t0 u a)
          \<and> ipsms_login_time (localStorage a1) = Some t0
          \<and> ipsms_session_expiry (localStorage a1) = Some (t0 + 86400000)
          \<and> (\<forall>t1 c. t1 < t0 + 86400000 \<longrightarrow>
                 fst (checkExistingLogin t1 c a1)
               \<and> currentUser (snd (checkExistingLogin t1 c a1)) = Some u
               \<and> localStorage (snd (checkExistingLogin t1 c a1)) = localStorage a1)
          \<and> (\<forall>t1 c. t0 + 86400000 \<le> t1 \<longrightarrow>
                 \<not> fst (checkExistingLogin t1 c a1)
               \<and> ipsms_user (localStorage (snd (checkExistingLogin t1 c a1))) = None
               \<and> ipsms_session_expiry (localStorage (snd (checkExistingLogin t1 c a1))) = None
               \<and> ipsms_login_time (localStorage (snd (checkExistingLogin t1 c a1))) = None)"
  using assms
  by (auto simp: session_store_defs trackUserLogin_unchanged session_keys_trackUserLogout
        medium_trackUserLogout split: option.splits)

theorem session_round_trip_witness:
  "medium (localStorage researcherApp) = Working
   \<and> fst (checkExistingLogin 2000 2000 loggedInApp)
   \<and> currentUser (snd (checkExistingLogin 2000 2000 loggedInApp)) = Some mockUser
   \<and> \<not> fst (checkExistingLogin 86401000 86401000 loggedInApp)
   \<and> ipsms_user (localStorage (snd (checkExistingLogin 86401000 86401000 loggedInApp))) = None"
proof -
  note w = medium_researcherApp
  from session_round_trip [OF w, of localEnv 1000 mockUser]
  have "(\<forall>t1 c. t1 < 1000 + 86400000 \<longrightarrow>
            fst (checkExistingLogin t1 c loggedInApp)
          \<and> currentUser (snd (checkExistingLogin t1 c loggedInApp)) = Some mockUser)
      \<and> (\<forall>t1 c. 1000 + 86400000 \<le> t1 \<longrightarrow>
            \<not> fst (checkExistingLogin t1 c loggedInApp)
          \<and> ipsms_user (localStorage (snd (checkExistingLogin t1 c loggedInApp))) = None)"
    unfolding Let_def loggedInApp_def by blast
  then have "fst (checkExistingLogin 2000 2000 loggedInApp)
      \<and> currentUser (snd (checkExistingLogin 2000 2000 loggedInApp)) = Some mockUser
      \<and> \<not> fst (checkExistingLogin 86401000 86401000 loggedInApp)
      \<and> ipsms_user (localStorage (snd (checkExistingLogin 86401000 86401000 loggedInApp))) = None"
    by simp
  with w show ?thesis by blast
qed

lemma logoutLog_idem: "logoutLog u t2 (logoutLog u t1 l) = logoutLog u t1 l"
  by (induction l) (auto simp: logoutLog_def endSession_def sameUser_def)

lemma trackUserLogout_idem:
  "trackUserLogout u t2 (trackUserLogout u t1 st) = trackUserLogout u t1 st"
  by (simp add: trackUserLogout_def Let_def readable_def writable_def storedLog_def logoutLog_idem)

lemma trackUserLogout_removed:
  "trackUserLogout u t (st\<lparr>ipsms_user := None, ipsms_session_expiry := None, ipsms_login_time := None\<rparr>)
     = (trackUserLogout u t st)\<lparr>ipsms_user := None, ipsms_session_expiry := None, ipsms_login_time := None\<rparr>"
  by (simp add: trackUserLogout_def Let_def readable_def writable_def storedLog_def)

lemma clearUserSession_idem: "clearUserSession t2 (clearUserSession t a) = clearUserSession t a"
proof (cases "currentUser a")
  case None
  then show ?thesis by (simp add: clearUserSession_def Let_def readable_def)
next
  case (Some u)
  have r: "readable (trackUserLogout u t' st) = readable st" for st t'
    by (simp add: readable_def medium_trackUserLogout)
  show ?thesis using Some
    by (simp add: clearUserSession_def Let_def r trackUserLogout_removed trackUserLogout_idem)
qed

text \<open>
  Claim C9. Whatever the stored session is (none, valid or expired) and whoever is
  logged in, after \<^verbatim>\<open>clearUserSession()\<close> on a medium that can be accessed the stored
  user, expiry and login time are gone, these being the persisted fields of a session
  (the page origin under \<^verbatim>\<open>ipsms_environment\<close> is not one of them and stays); and a
  second \<^verbatim>\<open>clearUserSession()\<close> changes nothing, on any medium.
\<close>

theorem clearUserSession_clears:
  "(readable (localStorage a) \<longrightarrow>
       ipsms_user (localStorage (clearUserSession t a)) = None
     \<and> ipsms_session_expiry (localStorage (clearUserSession t a)) = None
     \<and> ipsms_login_time (localStorage (clearUserSession t a)) = None
     \<and> ipsms_environment (localStorage (clearUserSession t a)) = ipsms_environment (localStorage a))
   \<and> clearUserSession t2 (clearUserSession t a) = clearUserSession t a"
proof -
  have "readable (localStorage a) \<longrightarrow>
       ipsms_user (localStorage (clearUserSession t a)) = None
     \<and> ipsms_session_expiry (localStorage (clearUserSession t a)) = None
     \<and> ipsms_login_time (localStorage (clearUserSession t a)) = None
     \<and> ipsms_environment (localStorage (clearUserSession t a)) = ipsms_environment (localStorage a)"
    by (cases "currentUser a")
       (simp_all add: clearUserSession_def Let_def readable_def medium_trackUserLogout
          session_keys_trackUserLogout)
  then show ?thesis using clearUserSession_idem by blast
qed

theorem clearUserSession_clears_witness:
  "readable (localStorage loggedInApp)
   \<and> ipsms_user (localStorage loggedInApp) = Some mockUser
   \<and> ipsms_user (localStorage (clearUserSession 5000 loggedInApp)) = None
   \<and> ipsms_session_expiry (localStorage (clearUserSession 5000 loggedInApp)) = None
   \<and> ipsms_login_time (localStorage (clearUserSession 5000 loggedInApp)) = None
   \<and> clearUserSession 9000 (clearUserSession 5000 loggedInApp) = clearUserSession 5000 loggedInApp"
proof -
  have r: "readable (localStorage loggedInApp)"
    by (simp add: readable_def localStorage_loggedInApp)
  from clearUserSession_clears [of loggedInApp 5000 9000] r
  show ?thesis by (simp add: localStorage_loggedInApp)
qed

section \<open>Activity log: verified properties\<close>

lemma sameUser_endSession: "sameUser (endSession t e) u = sameUser e u"
  by (simp add: sameUser_def endSession_def)

lemma isActive_endSession: "isActive (endSession t e) = False"
  by (simp add: endSession_def)

lemma sameUser_loginEntry: "sameUser (loginEntry ev n u t) u"
  by (simp add: sameUser_def loginEntry_def)

lemma isActive_loginEntry: "isActive (loginEntry ev n u t)"
  by (simp add: loginEntry_def)

lemma slice_last_short: "length xs \<le> n \<Longrightarrow> slice_last n xs = xs"
  by (simp add: slice_last_def)

lemma slice_last_snoc: "0 < n \<Longrightarrow> slice_last n (xs @ [x]) = drop (Suc (length xs) - n) xs @ [x]"
  by (simp add: slice_last_def)

lemma loginLog_eq:
  "loginLog ev n u t l = slice_last 100 (logoutLog u t l @ [loginEntry ev n u t])"
proof -
  have "(\<lambda>e. if sameUser e u then (if isActive e then endSession t e else e) else e)
      = (\<lambda>e. if sameUser e u \<and> isActive e then endSession t e else e)"
    by auto
  then show ?thesis
    by (simp add: loginLog_def logoutLog_def Let_def slice_last_short)
qed

lemma none_active_after_logout:
  "\<forall>e\<in>set (logoutLog u t l). sameUser e u \<longrightarrow> \<not> isActive e"
  by (auto simp: logoutLog_def sameUser_endSession isActive_endSession)

text \<open>
  What the array work of \<^verbatim>\<open>trackUserLogin\<close> is written to do, on the log it is given:
  the user's active entries are ended and the one active entry of the user is the new,
  last one.
\<close>

lemma active_after_login:
  "filter (\<lambda>e. sameUser e u \<and> isActive e) (loginLog ev n u t l) = [loginEntry ev n u t]"
proof -
  have "filter (\<lambda>e. sameUser e u \<and> isActive e) (drop k (logoutLog u t l)) = []" for k
    using none_active_after_logout [of u t l]
    by (auto simp: filter_empty_conv dest: in_set_dropD)
  then show ?thesis
    by (simp add: loginLog_eq slice_last_snoc sameUser_loginEntry isActive_loginEntry)
qed

text \<open>
  Claim C10 describes what the code sets out to do and does not do. On the page as it
  is loaded, the researcher logs in on a working medium: the session is saved, and
  \<^verbatim>\<open>trackUserLogin\<close> leaves the storage as it was, because the call of
  \<^verbatim>\<open>generateId\<close> throws before the \<^verbatim>\<open>forEach\<close> and the \<^verbatim>\<open>push\<close>. No login is
  recorded: there is no activity log after the login, hence no new active entry, and an
  earlier active entry of the user would not have been ended.
\<close>

theorem login_not_recorded:
  "fst (saveUserSession localEnv 1000 mockUser researcherApp)
   \<and> trackUserLogin localEnv mockUser 1000 (localStorage researcherApp) = localStorage researcherApp
   \<and> ipsms_user_activity_log (localStorage loggedInApp) = None
   \<and> storedLog (localStorage loggedInApp) = []"
  using medium_researcherApp
  by (simp add: trackUserLogin_unchanged localStorage_loggedInApp storedLog_def
        session_store_defs)










end
